theory Spec2Isabelle
  imports Complex_Main "HOL-Library.Sublist" "HOL-Library.List_Lexorder" "HOL-Library.Char_ord"
begin

section \<open>Python values used by the tutor scripts\<close>

text \<open>
  A Python \<open>str\<close> is modelled as a \<open>string\<close>; one \<open>char\<close> stands for one character
  (code point below 256) of the Python string, so \<open>length\<close> is Python's \<open>len\<close>.
  Exceptions are values: a class and the text that \<open>str(e)\<close> gives. Only subclasses of
  \<open>Exception\<close> are modelled, which is what every \<open>except Exception\<close> clause of the
  scripts catches.
\<close>

datatype exn_class =
    IndexError | NameError | AttributeError | KeyError | TypeError | ValueError
  | ConnectionError | ConnectTimeout | Timeout | ReadTimeout | OtherException

datatype exn = Exn exn_class string

fun exn_str :: "exn \<Rightarrow> string" where
  "exn_str (Exn c m) = m"

fun exn_cls :: "exn \<Rightarrow> exn_class" where
  "exn_cls (Exn c m) = c"

text \<open>\<open>sep.join(xs)\<close>.\<close>

fun join :: "string \<Rightarrow> string list \<Rightarrow> string" where
  "join sep [] = []"
| "join sep [x] = x"
| "join sep (x # y # ys) = x @ sep @ join sep (y # ys)"

text \<open>\<open>xs[i]\<close> for a list: a negative index counts from the end, anything else out of
  range raises \<open>IndexError\<close>.\<close>

definition py_getitem :: "'a list \<Rightarrow> int \<Rightarrow> exn + 'a" where
  "py_getitem xs i =
     (if 0 \<le> i \<and> i < int (length xs) then Inr (xs ! nat i)
      else if i < 0 \<and> - int (length xs) \<le> i then Inr (xs ! nat (int (length xs) + i))
      else Inl (Exn IndexError ''list index out of range''))"

text \<open>\<open>xs[i:]\<close>: a negative start is taken from the end and clamped at the front, a start
  beyond the end gives the empty list.\<close>

definition py_slice_from :: "int \<Rightarrow> 'a list \<Rightarrow> 'a list" where
  "py_slice_from i xs =
     (let n = int (length xs);
          start = (if i < 0 then max (n + i) 0 else min i n)
      in drop (nat start) xs)"

text \<open>\<open>s[:n]\<close> for \<open>n \<ge> 0\<close>.\<close>

definition py_slice_to :: "nat \<Rightarrow> 'a list \<Rightarrow> 'a list" where
  "py_slice_to n xs = take n xs"

text \<open>Sequencing of statements that may raise, and \<open>try: ... except Exception as e: ...\<close>.\<close>

definition and_then :: "exn + 'a \<Rightarrow> ('a \<Rightarrow> exn + 'b) \<Rightarrow> exn + 'b" where
  "and_then r f = (case r of Inl e \<Rightarrow> Inl e | Inr x \<Rightarrow> f x)"

definition try_except :: "exn + 'a \<Rightarrow> (exn \<Rightarrow> exn + 'a) \<Rightarrow> exn + 'a" where
  "try_except body handler = (case body of Inl e \<Rightarrow> handler e | Inr x \<Rightarrow> Inr x)"

text \<open>\<open>str.strip()\<close>, \<open>str.lower()\<close> and \<open>sub in s\<close> on characters below 256: the white space
  is what \<open>str.isspace\<close> accepts there, and the letters with a lower-case form are
  \<open>A\<close>..\<open>Z\<close> and the Latin-1 capitals \<open>0xC0\<close>..\<open>0xDE\<close> without \<open>0xD7\<close>.\<close>

definition py_isspace :: "char \<Rightarrow> bool" where
  "py_isspace c =
     (let n = (of_char c :: nat)
      in (9 \<le> n \<and> n \<le> 13) \<or> (28 \<le> n \<and> n \<le> 32) \<or> n = 133 \<or> n = 160)"

definition py_strip :: "string \<Rightarrow> string" where
  "py_strip s = rev (dropWhile py_isspace (rev (dropWhile py_isspace s)))"

definition py_lower_char :: "char \<Rightarrow> char" where
  "py_lower_char c =
     (let n = (of_char c :: nat)
      in if (65 \<le> n \<and> n \<le> 90) \<or> (192 \<le> n \<and> n \<le> 222 \<and> n \<noteq> 215)
         then char_of (n + 32) else c)"

definition py_lower :: "string \<Rightarrow> string" where
  "py_lower s = map py_lower_char s"

fun py_in :: "string \<Rightarrow> string \<Rightarrow> bool" where
  "py_in sub [] = (sub = [])"
| "py_in sub (c # cs) = (prefix sub (c # cs) \<or> py_in sub cs)"

text \<open>\<open>str(n)\<close> for an integer.\<close>

fun py_str_nat :: "nat \<Rightarrow> string" where
  "py_str_nat n =
     (if n < 10 then [char_of (48 + n)]
      else py_str_nat (n div 10) @ [char_of (48 + n mod 10)])"

definition py_str_int :: "int \<Rightarrow> string" where
  "py_str_int i = (if i < 0 then ''-'' @ py_str_nat (nat (- i)) else py_str_nat (nat i))"

text \<open>Parsed JSON, and the objects the HTTP and Ollama clients hand back.\<close>

datatype json =
    JNull | JBool bool | JNum int | JStr string | JArr "json list" | JObj "(string \<times> json) list"

fun py_type_name :: "json \<Rightarrow> string" where
  "py_type_name JNull = ''NoneType''"
| "py_type_name (JBool b) = ''bool''"
| "py_type_name (JNum n) = ''int''"
| "py_type_name (JStr s) = ''str''"
| "py_type_name (JArr xs) = ''list''"
| "py_type_name (JObj kvs) = ''dict''"

definition no_attribute :: "json \<Rightarrow> string \<Rightarrow> exn" where
  "no_attribute v attr =
     Exn AttributeError ([CHR 0x27] @ py_type_name v @ [CHR 0x27] @ '' object has no attribute ''
                          @ [CHR 0x27] @ attr @ [CHR 0x27])"

text \<open>\<open>v.strip()\<close> on a value that need not be a string.\<close>

fun strip_value :: "json \<Rightarrow> exn + string" where
  "strip_value (JStr s) = Inr (py_strip s)"
| "strip_value v = Inl (no_attribute v ''strip'')"

text \<open>\<open>v.get(key, dflt)\<close>: only a dict has the method.\<close>

fun get_value :: "json \<Rightarrow> string \<Rightarrow> json \<Rightarrow> exn + json" where
  "get_value (JObj kvs) key dflt =
     (case map_of kvs key of None \<Rightarrow> Inr dflt | Some v \<Rightarrow> Inr v)"
| "get_value v key dflt = Inl (no_attribute v ''get'')"

text \<open>\<open>v[key]\<close> with a string key: a missing key raises \<open>KeyError\<close>, a value that is not
  a mapping raises \<open>TypeError\<close>.\<close>

fun subscript_key :: "json \<Rightarrow> string \<Rightarrow> exn + json" where
  "subscript_key (JObj kvs) key =
     (case map_of kvs key of
        None \<Rightarrow> Inl (Exn KeyError ([CHR 0x27] @ key @ [CHR 0x27]))
      | Some v \<Rightarrow> Inr v)"
| "subscript_key v key = Inl (Exn TypeError (py_type_name v @ '' cannot be subscripted by a key''))"

section \<open>The retrieval-augmented tutors (AI_model_gemini.py, AI_model_qwen2.py)\<close>

subsection \<open>Retrieved context\<close>

text \<open>The f-string \<open>f"Q: {q}\nA: {a}"\<close>, used for a retrieved pair and for a memory entry.\<close>

definition qa_text :: "string \<Rightarrow> string \<Rightarrow> string" where
  "qa_text q a = ''Q: '' @ q @ ''\<newline>A: '' @ a"

text \<open>
  The list comprehension
  \<open>[f"Q: {questions[i]}\nA: {correct_texts[i]}" for i in I[0] if i < len(questions)]\<close>
  over the row of labels \<open>I[0]\<close> that the index search returned, with \<open>qs\<close> the list
  \<open>questions\<close> and \<open>cs\<close> the list \<open>correct_texts\<close>. The only filter is
  \<open>i < len(questions)\<close>; the subscripts follow Python's rules.
\<close>

fun context_pairs :: "string list \<Rightarrow> string list \<Rightarrow> int list \<Rightarrow> exn + string list" where
  "context_pairs qs cs [] = Inr []"
| "context_pairs qs cs (i # labels) =
     (if i < int (length qs) then
        (case py_getitem qs i of
           Inl e \<Rightarrow> Inl e
         | Inr q \<Rightarrow>
            (case py_getitem cs i of
               Inl e \<Rightarrow> Inl e
             | Inr a \<Rightarrow>
                (case context_pairs qs cs labels of
                   Inl e \<Rightarrow> Inl e
                 | Inr ps \<Rightarrow> Inr (qa_text q a # ps))))
      else context_pairs qs cs labels)"

definition build_context :: "string list \<Rightarrow> string list \<Rightarrow> int list \<Rightarrow> exn + string" where
  "build_context qs cs labels =
     (case context_pairs qs cs labels of
        Inl e \<Rightarrow> Inl e
      | Inr ps \<Rightarrow> Inr (join ''\<newline>'' ps))"

subsection \<open>Conversation memory window\<close>

text \<open>\<open>conversation_history[-5:]\<close> (Gemini) and \<open>conversation_history[-2:]\<close> (Qwen2),
  and the \<open>history_text\<close> each script builds from it; \<open>h\<close> is \<open>conversation_history\<close>.\<close>

definition gemini_window :: "string list \<Rightarrow> string list" where
  "gemini_window h = py_slice_from (- 5) h"

definition qwen2_window :: "string list \<Rightarrow> string list" where
  "qwen2_window h = py_slice_from (- 2) h"

definition gemini_history_text :: "string list \<Rightarrow> string" where
  "gemini_history_text h =
     (if h \<noteq> []
      then ''\<newline>Previous tutor interactions:\<newline>'' @ join ''\<newline>'' (gemini_window h)
      else [])"

definition qwen2_history_text :: "string list \<Rightarrow> string" where
  "qwen2_history_text h =
     (if h \<noteq> []
      then ''\<newline>Previous:\<newline>'' @ join ''\<newline>'' (qwen2_window h)
      else [])"

subsection \<open>Prompt assembly\<close>

text \<open>The f-string that \<open>personalized_tutor\<close> of AI_model_gemini.py assigns to \<open>prompt\<close>:
  its fixed text up to the first placeholder, then the whole of it.\<close>

definition gemini_role_template :: string where
  \<open>gemini_role_template =
     ''\<newline>'' @
     ''You are an expert Cisco network engineer specializing in IOS configurations and CLI '' @
     ''commands.\<newline>'' @
     ''\<newline>'' @
     ''Your expertise:\<newline>'' @
     ''- **Cisco IOS Command Syntax**: Provide exact, copy-pasteable commands\<newline>'' @
     ''- **Router & Switch Configuration**: Step-by-step configuration workflows\<newline>'' @
     ''- **VLAN Setup**: Trunking, access ports, inter-VLAN routing\<newline>'' @
     ''- **Routing Protocols**: OSPF, EIGRP, BGP configuration\<newline>'' @
     ''- **ACLs & Security**: Access control lists, port security\<newline>'' @
     ''- **NAT/PAT**: Network address translation setup\<newline>'' @
     ''- **Verification Commands**: Show commands to verify configs work\<newline>'' @
     ''\<newline>'' @
     ''Your response format:\<newline>'' @
     ''1. Brief explanation of what we're configuring\<newline>'' @
     ''2. Exact CLI commands (copy-pasteable)\<newline>'' @
     ''3. Explanation of what each command does\<newline>'' @
     ''4. Verification steps with show commands\<newline>'' @
     ''5. Common mistakes to avoid\<newline>'' @
     ''\<newline>'' @
     ''Context/reference:\<newline>''\<close>

definition gemini_prompt :: "string \<Rightarrow> string \<Rightarrow> string \<Rightarrow> string" where
  \<open>gemini_prompt context history_text query =
     gemini_role_template @
     context @
     ''\<newline>\<newline>'' @
     history_text @
     ''\<newline>\<newline>'' @
     ''Configuration request: '' @
     query @
     ''\<newline>\<newline>'' @
     ''Provide clear CLI commands with syntax and verification steps.\<newline>''\<close>

text \<open>The \<open>instruction\<close> and \<open>prompt\<close> of AI_model_qwen2.py. The prompt takes
  \<open>context[:400]\<close>; the \<open>history_text\<close> computed before it is not part of it.\<close>

definition qwen2_instruction :: string where
  \<open>qwen2_instruction =
     ''You are a CCNA exam practice coach. Provide INSTANT, CONCISE answers.\<newline>'' @
     ''\<newline>'' @
     ''Your focus:\<newline>'' @
     ''- Quick, direct answers\<newline>'' @
     ''- Practice questions when asked\<newline>'' @
     ''- Brief explanations (2-3 sentences max)\<newline>'' @
     ''- Perfect for rapid Q&A and flash cards\<newline>'' @
     ''- No lengthy details - speed is priority''\<close>

definition qwen2_prompt :: "string \<Rightarrow> string \<Rightarrow> string" where
  \<open>qwen2_prompt context query =
     qwen2_instruction @
     ''\<newline>\<newline>'' @
     ''Context: '' @
     py_slice_to 400 context @
     ''\<newline>\<newline>'' @
     ''Question: '' @
     query @
     ''\<newline>\<newline>'' @
     ''Quick answer:''\<close>

subsection \<open>Generation backends\<close>

text \<open>
  The generation services are outside the scripts, so each is a parameter: what the
  call gives for a prompt, an exception or a response object.
  \<^item> Gemini: \<open>model.generate_content(prompt)\<close> raises or returns a response whose
    \<open>text\<close> property raises or gives a string.
  \<^item> Ollama over HTTP (Qwen2): \<open>requests.post(...)\<close> raises or returns a response with a
    \<open>status_code\<close> and a \<open>json()\<close> method that raises or gives the parsed body.
\<close>

type_synonym gemini_service = "string \<Rightarrow> exn + (exn + string)"

definition gemini_generate_answer :: "gemini_service \<Rightarrow> string \<Rightarrow> exn + string" where
  "gemini_generate_answer generate_content prompt =
     try_except
       (and_then (generate_content prompt) (\<lambda>response.
        and_then response (\<lambda>text.
        Inr (py_strip text))))
       (\<lambda>e. Inr (''[Error from Gemini API] '' @ exn_str e))"

record http_response =
  status_code :: int
  json_body :: "exn + json"

type_synonym http_service = "string \<Rightarrow> exn + http_response"

text \<open>The \<open>except\<close> clauses of \<open>generate_answer\<close> of AI_model_qwen2.py, in their order:
  \<open>requests.exceptions.ConnectionError\<close> (of which \<open>ConnectTimeout\<close> is a subclass), then
  \<open>requests.exceptions.Timeout\<close> (with \<open>ReadTimeout\<close>), then \<open>Exception\<close>.\<close>

definition qwen2_handler :: "exn \<Rightarrow> exn + string" where
  "qwen2_handler e =
     (if exn_cls e = ConnectionError \<or> exn_cls e = ConnectTimeout
      then Inr ''[Error] Cannot connect to Ollama. Please start Ollama service.''
      else if exn_cls e = Timeout \<or> exn_cls e = ReadTimeout
      then Inr ''[Error] Request timed out. Try again.''
      else Inr (''[Error] '' @ exn_str e))"

definition qwen2_generate_answer :: "http_service \<Rightarrow> string \<Rightarrow> exn + string" where
  "qwen2_generate_answer post prompt =
     try_except
       (and_then (post prompt) (\<lambda>response.
        if status_code response = 200 then
          and_then (json_body response) (\<lambda>result.
          and_then (get_value result ''response'' (JStr [])) (\<lambda>v.
          strip_value v))
        else
          Inr (''[Error] Ollama returned status '' @ py_str_int (status_code response)
               @ ''. Is Ollama running?'')))
       qwen2_handler"

subsection \<open>personalized_tutor\<close>

text \<open>
  The module state of each script: the two corpus lists filled at load time and the
  conversation memory. \<open>search query top_k\<close> stands for
  \<open>embedding_model.encode([query])\<close> followed by \<open>index.search(query_vec, top_k)\<close> and
  gives the row \<open>I[0]\<close> of labels, or the exception the library raised.
\<close>

record rag_module =
  questions :: "string list"
  correct_texts :: "string list"
  conversation_history :: "string list"

type_synonym search_service = "string \<Rightarrow> int \<Rightarrow> exn + int list"


text \<open>The prompt that \<open>personalized_tutor\<close> of AI_model_qwen2.py sends, as a function of
  all its arguments, and the function itself. \<open>mode\<close> is the second parameter.\<close>

definition qwen2_tutor_prompt ::
  "search_service \<Rightarrow> rag_module \<Rightarrow> string \<Rightarrow> string \<Rightarrow> int \<Rightarrow> exn + string"
where
  "qwen2_tutor_prompt search m query mode top_k =
     and_then (search query top_k) (\<lambda>labels.
     and_then (build_context (questions m) (correct_texts m) labels) (\<lambda>context.
     let history_text = qwen2_history_text (conversation_history m)
     in Inr (qwen2_prompt context query)))"

definition qwen2_personalized_tutor ::
  "search_service \<Rightarrow> http_service \<Rightarrow> rag_module \<Rightarrow> string \<Rightarrow> string \<Rightarrow> int
     \<Rightarrow> exn + string \<times> rag_module"
where
  "qwen2_personalized_tutor search post m query mode top_k =
     and_then (qwen2_tutor_prompt search m query mode top_k) (\<lambda>prompt.
     and_then (qwen2_generate_answer post prompt) (\<lambda>response_text.
     Inr (response_text,
          m\<lparr>conversation_history :=
              conversation_history m @ [qa_text query response_text]\<rparr>)))"

section \<open>The Ollama tutors (AI_model_phi3.py, AI_model_llama.py)\<close>

text \<open>
  The two tutor classes keep the same attributes. Of an instance the model has the
  model name, the \<open>dataset\<close> (a list of question records, each a dict of strings), the
  \<open>experience_level\<close> of \<open>student_profile\<close>, the attribute
  \<open>conversation_history\<close> (here \<open>self_conversation_history\<close>; no method writes to it) and
  \<open>stats['topic_performance']\<close>, a dict in insertion order. Clock readings
  (\<open>total_response_time\<close>, \<open>last_accessed\<close>) and console output are left out.
  \<open>chat model system user\<close> stands for \<open>ollama.chat\<close> with the two messages and the fixed
  options of the instance.
\<close>

record topic_entry =
  questions_asked :: nat
  complexity_level :: string

record ollama_tutor =
  model :: string
  dataset :: "(string \<times> string) list list"
  experience_level :: string
  self_conversation_history :: "string list"
  topic_performance :: "(string \<times> topic_entry) list"

type_synonym chat_service = "string \<Rightarrow> string \<Rightarrow> string \<Rightarrow> exn + json"

text \<open>\<open>d[k] = v\<close> on a dict kept in insertion order.\<close>

fun dict_set :: "('k \<times> 'v) list \<Rightarrow> 'k \<Rightarrow> 'v \<Rightarrow> ('k \<times> 'v) list" where
  "dict_set [] k v = [(k, v)]"
| "dict_set ((k', v') # kvs) k v =
     (if k' = k then (k, v) # kvs else (k', v') # dict_set kvs k v)"

subsection \<open>Topic and complexity classifiers\<close>

text \<open>\<open>any(keyword in query_lower for keyword in keywords)\<close>.\<close>

fun any_keyword_in :: "string list \<Rightarrow> string \<Rightarrow> bool" where
  "any_keyword_in [] query_lower = False"
| "any_keyword_in (keyword # keywords) query_lower =
     (py_in keyword query_lower \<or> any_keyword_in keywords query_lower)"

text \<open>The loop \<open>for topic, keywords in topics.items()\<close> with its \<open>return topic\<close>, and the
  \<open>return 'general'\<close> behind it.\<close>

fun first_matching_topic :: "(string \<times> string list) list \<Rightarrow> string \<Rightarrow> string" where
  "first_matching_topic [] query_lower = ''general''"
| "first_matching_topic ((topic, keywords) # topics) query_lower =
     (if any_keyword_in keywords query_lower then topic
      else first_matching_topic topics query_lower)"

definition phi3_topics :: "(string \<times> string list) list" where
  "phi3_topics =
     [(''routing'', [''ospf'', ''eigrp'', ''rip'', ''bgp'', ''route'', ''routing'']),
      (''switching'', [''vlan'', ''stp'', ''switch'', ''trunk'', ''etherchannel'']),
      (''security'', [''acl'', ''security'', ''firewall'', ''vpn'', ''802.1x'']),
      (''wireless'', [''wifi'', ''wireless'', ''wlan'', ''ap'', ''controller'']),
      (''troubleshooting'', [''troubleshoot'', ''debug'', ''problem'', ''issue'', ''fix'']),
      (''subnetting'', [''subnet'', ''vlsm'', ''cidr'', ''ip address'', ''network'']),
      (''protocols'', [''tcp'', ''udp'', ''http'', ''dns'', ''dhcp'', ''snmp''])]"

definition phi3_extract_topic :: "string \<Rightarrow> string" where
  "phi3_extract_topic query = first_matching_topic phi3_topics (py_lower query)"

definition llama_topics :: "(string \<times> string list) list" where
  "llama_topics =
     [(''routing'', [''ospf'', ''eigrp'', ''rip'', ''bgp'', ''route'', ''routing'', ''static route'',
                     ''dynamic routing'']),
      (''switching'', [''vlan'', ''stp'', ''switch'', ''trunk'', ''etherchannel'', ''port-channel'',
                       ''spanning-tree'']),
      (''security'', [''acl'', ''security'', ''firewall'', ''vpn'', ''802.1x'', ''authentication'',
                      ''authorization'']),
      (''wireless'', [''wifi'', ''wireless'', ''wlan'', ''ap'', ''controller'', ''802.11'', ''ssid'']),
      (''troubleshooting'', [''troubleshoot'', ''debug'', ''problem'', ''issue'', ''fix'',
                             ''diagnose'']),
      (''subnetting'', [''subnet'', ''vlsm'', ''cidr'', ''ip address'', ''network'', ''supernet'']),
      (''protocols'', [''tcp'', ''udp'', ''http'', ''dns'', ''dhcp'', ''snmp'', ''ntp'', ''syslog'']),
      (''wan'', [''wan'', ''frame relay'', ''ppp'', ''hdlc'', ''serial'', ''leased line'']),
      (''ipv6'', [''ipv6'', ''ipng'', ''dual stack'', ''tunneling'', ''migration'']),
      (''qos'', [''qos'', ''quality of service'', ''traffic shaping'', ''policing'', ''marking''])]"

definition llama_extract_topic :: "string \<Rightarrow> string" where
  "llama_extract_topic query = first_matching_topic llama_topics (py_lower query)"

definition llama_assess_complexity :: "string \<Rightarrow> string" where
  "llama_assess_complexity query =
     (let complex_indicators =
            [''design'', ''architect'', ''implement'', ''troubleshoot'', ''optimize'',
             ''compare'', ''analyze'', ''evaluate'', ''integrate'', ''configure''];
          advanced_terms =
            [''enterprise'', ''scalability'', ''redundancy'', ''convergence'',
             ''interoperability'', ''automation'', ''programmability''];
          query_lower = py_lower query
      in if any_keyword_in advanced_terms query_lower then ''advanced''
         else if any_keyword_in complex_indicators query_lower then ''intermediate''
         else ''basic'')"

subsection \<open>Learning analytics\<close>

definition phi3_update_learning_analytics :: "ollama_tutor \<Rightarrow> string \<Rightarrow> ollama_tutor" where
  "phi3_update_learning_analytics self query =
     (let topic = phi3_extract_topic query;
          perf = topic_performance self;
          perf = (if map_of perf topic = None
                  then dict_set perf topic \<lparr>questions_asked = 0, complexity_level = ''basic''\<rparr>
                  else perf);
          perf = (case map_of perf topic of
                    None \<Rightarrow> perf
                  | Some entry \<Rightarrow>
                      dict_set perf topic (entry\<lparr>questions_asked := questions_asked entry + 1\<rparr>))
      in self\<lparr>topic_performance := perf\<rparr>)"

definition llama_update_learning_analytics :: "ollama_tutor \<Rightarrow> string \<Rightarrow> ollama_tutor" where
  "llama_update_learning_analytics self query =
     (let topic = llama_extract_topic query;
          complexity = llama_assess_complexity query;
          perf = topic_performance self;
          perf = (if map_of perf topic = None
                  then dict_set perf topic \<lparr>questions_asked = 0, complexity_level = ''basic''\<rparr>
                  else perf);
          perf = (case map_of perf topic of
                    None \<Rightarrow> perf
                  | Some entry \<Rightarrow>
                      dict_set perf topic (entry\<lparr>questions_asked := questions_asked entry + 1\<rparr>));
          perf = (case map_of perf topic of
                    None \<Rightarrow> perf
                  | Some entry \<Rightarrow> dict_set perf topic (entry\<lparr>complexity_level := complexity\<rparr>))
      in self\<lparr>topic_performance := perf\<rparr>)"

subsection \<open>Prompts and response enhancement\<close>

definition phi3_build_expert_system_prompt :: "ollama_tutor \<Rightarrow> string" where
  \<open>phi3_build_expert_system_prompt self =
     (let experience = experience_level self;
          base_prompt =
            ''You are a highly knowledgeable and conversational AI assistant with deep expertise in '' @
            ''networking and Cisco technologies. You communicate in a natural, engaging way that '' @
            ''feels like talking to a knowledgeable colleague or mentor.\<newline>'' @
            ''\<newline>'' @
            ''Your communication style:\<newline>'' @
            ''- Natural, flowing conversation without rigid structure\<newline>'' @
            ''- Thoughtful explanations that build understanding progressively\<newline>'' @
            ''- Genuine enthusiasm for helping people learn networking\<newline>'' @
            ''- Ability to adapt complexity based on the person's background\<newline>'' @
            ''- Mix of technical precision with relatable explanations\<newline>'' @
            ''- Conversational transitions that connect ideas smoothly\<newline>'' @
            ''\<newline>'' @
            ''Your networking knowledge covers:\<newline>'' @
            ''- Routing protocols, switching technologies, and network security\<newline>'' @
            ''- Practical troubleshooting and real-world implementation\<newline>'' @
            ''- Cisco device configuration and best practices\<newline>'' @
            ''- Network design principles and optimization\<newline>'' @
            ''- Modern networking trends and technologies\<newline>'' @
            ''\<newline>'' @
            ''You naturally weave together theory and practice, always aiming to help people truly '' @
            ''understand concepts rather than just memorize facts.'';
          base_prompt =
            (if experience = ''beginner'' then
               base_prompt @
               ''\<newline>'' @
               ''\<newline>'' @
               ''When helping newcomers to networking, you naturally:\<newline>'' @
               ''- Use everyday analogies to make complex concepts click\<newline>'' @
               ''- Build understanding step by step, connecting new ideas to familiar ones\<newline>'' @
               ''- Share practical examples that show why concepts matter\<newline>'' @
               ''- Encourage questions and create a comfortable learning environment\<newline>'' @
               ''- Break down intimidating topics into manageable pieces''
             else if experience = ''intermediate'' then
               base_prompt @
               ''\<newline>'' @
               ''\<newline>'' @
               ''With people who have some networking background, you:\<newline>'' @
               ''- Connect dots between different concepts they've learned\<newline>'' @
               ''- Dive deeper into the 'why' behind networking decisions\<newline>'' @
               ''- Share insights about real-world challenges and solutions\<newline>'' @
               ''- Help them see patterns and relationships across technologies\<newline>'' @
               ''- Bridge the gap between theory and practical application''
             else
               base_prompt @
               ''\<newline>'' @
               ''\<newline>'' @
               ''For experienced network professionals, you:\<newline>'' @
               ''- Engage in technical discussions with appropriate depth\<newline>'' @
               ''- Explore edge cases and advanced scenarios\<newline>'' @
               ''- Share insights about enterprise-scale considerations\<newline>'' @
               ''- Discuss emerging technologies and industry trends\<newline>'' @
               ''- Provide strategic perspectives on network design and optimization'');
          base_prompt =
            base_prompt @
            ''\<newline>'' @
            ''\<newline>'' @
            ''Your approach to helping people:\<newline>'' @
            ''- Explain concepts in a way that builds genuine understanding\<newline>'' @
            ''- Share practical examples and real-world context naturally\<newline>'' @
            ''- Adapt your explanations based on what seems to resonate\<newline>'' @
            ''- Include relevant commands and configurations when helpful\<newline>'' @
            ''- Anticipate follow-up questions and address them proactively\<newline>'' @
            ''- Make complex topics feel approachable and interesting\<newline>'' @
            ''\<newline>'' @
            ''You respond like someone who genuinely enjoys networking and wants to share that '' @
            ''enthusiasm while helping others succeed. Your explanations flow naturally and feel '' @
            ''conversational rather than formal or robotic.''
      in base_prompt)\<close>

definition phi3_build_enhanced_prompt :: "string \<Rightarrow> string" where
  \<open>phi3_build_enhanced_prompt query =
     ''Here's a networking question I'd like your help with:\<newline>'' @
     ''\<newline>'' @
     query @
     ''\<newline>'' @
     ''\<newline>'' @
     ''I'm looking for a thoughtful explanation that helps me really understand this topic. '' @
     ''Feel free to include practical examples, relevant commands, or real-world context that '' @
     ''would be helpful. If there are common misconceptions or important details people often '' @
     ''miss, I'd appreciate you mentioning those too.''\<close>

definition phi3_enhance_response :: "json \<Rightarrow> string \<Rightarrow> exn + string" where
  \<open>phi3_enhance_response answer query =
     and_then (strip_value answer) (\<lambda>enhanced_answer.
     let enhanced_answer =
           (if py_in ''configure'' (py_lower query) \<or> py_in ''configuration'' (py_lower query) then
              if \<not> py_in ''verify'' (py_lower enhanced_answer)
                 \<and> \<not> py_in ''show'' (py_lower enhanced_answer)
              then enhanced_answer @
                   ''\<newline>'' @
                   ''\<newline>'' @
                   ''By the way, don't forget to verify your configuration works as expected - the 'show' '' @
                   ''commands are your best friend for confirming everything is set up correctly.''
              else enhanced_answer
            else enhanced_answer);
         enhanced_answer =
           (if py_in ''troubleshoot'' (py_lower query) \<or> py_in ''problem'' (py_lower query) then
              if \<not> py_in ''approach'' (py_lower enhanced_answer)
                 \<and> \<not> py_in ''method'' (py_lower enhanced_answer)
              then enhanced_answer @
                   ''\<newline>'' @
                   ''\<newline>'' @
                   ''When troubleshooting, I find it helpful to work systematically through the layers - '' @
                   ''start with the physical connections, then data link, network, and so on. It saves time '' @
                   ''in the long run.''
              else enhanced_answer
            else enhanced_answer)
     in Inr enhanced_answer)\<close>

definition llama_build_comprehensive_system_prompt :: "ollama_tutor \<Rightarrow> string" where
  \<open>llama_build_comprehensive_system_prompt self =
     (let experience = experience_level self;
          base_prompt =
            ''You are an exceptionally knowledgeable and engaging AI assistant with comprehensive '' @
            ''expertise in networking and Cisco technologies. You communicate in a natural, '' @
            ''thoughtful way that feels like having an in-depth conversation with a highly '' @
            ''experienced and patient mentor.\<newline>'' @
            ''\<newline>'' @
            ''Your communication approach:\<newline>'' @
            ''- Natural, flowing explanations that build understanding layer by layer\<newline>'' @
            ''- Thoughtful depth without overwhelming complexity\<newline>'' @
            ''- Genuine enthusiasm for helping people master networking concepts\<newline>'' @
            ''- Ability to provide comprehensive coverage while maintaining clarity\<newline>'' @
            ''- Seamless integration of theory, practice, and real-world insights\<newline>'' @
            ''- Conversational tone that makes complex topics accessible and interesting\<newline>'' @
            ''\<newline>'' @
            ''Your comprehensive networking knowledge includes:\<newline>'' @
            ''- Deep understanding of routing protocols, switching technologies, and network '' @
            ''security\<newline>'' @
            ''- Extensive practical experience with troubleshooting and implementation\<newline>'' @
            ''- Thorough knowledge of Cisco device configuration and optimization\<newline>'' @
            ''- Comprehensive grasp of network design principles and best practices\<newline>'' @
            ''- Understanding of modern networking trends and emerging technologies\<newline>'' @
            ''- Practical insights about real-world networking challenges and solutions\<newline>'' @
            ''\<newline>'' @
            ''You naturally provide thorough, well-rounded explanations that help people develop both '' @
            ''theoretical understanding and practical skills.'';
          base_prompt =
            (if experience = ''beginner'' then
               base_prompt @
               ''\<newline>'' @
               ''\<newline>'' @
               ''When helping people new to networking, you naturally:\<newline>'' @
               ''- Build understanding step by step, ensuring each concept is solid before moving '' @
               ''forward\<newline>'' @
               ''- Use relatable analogies and examples that make abstract concepts concrete\<newline>'' @
               ''- Provide detailed explanations of commands and configurations\<newline>'' @
               ''- Share the reasoning behind different approaches and design choices\<newline>'' @
               ''- Anticipate common questions and address potential confusion points\<newline>'' @
               ''- Create a supportive learning environment that encourages exploration''
             else if experience = ''intermediate'' then
               base_prompt @
               ''\<newline>'' @
               ''\<newline>'' @
               ''With people who have networking experience, you:\<newline>'' @
               ''- Connect concepts across different areas to build comprehensive understanding\<newline>'' @
               ''- Explore the nuances and trade-offs in different technical approaches\<newline>'' @
               ''- Share insights about real-world implementation challenges and solutions\<newline>'' @
               ''- Discuss how different technologies work together in practice\<newline>'' @
               ''- Provide multiple perspectives on solving networking problems\<newline>'' @
               ''- Help bridge the gap between theoretical knowledge and practical expertise''
             else
               base_prompt @
               ''\<newline>'' @
               ''\<newline>'' @
               ''For experienced networking professionals, you:\<newline>'' @
               ''- Engage in sophisticated technical discussions with appropriate depth\<newline>'' @
               ''- Explore advanced scenarios, edge cases, and optimization strategies\<newline>'' @
               ''- Discuss architectural considerations and design trade-offs\<newline>'' @
               ''- Share insights about industry trends and emerging technologies\<newline>'' @
               ''- Provide strategic perspectives on network planning and implementation\<newline>'' @
               ''- Offer comprehensive analysis of complex networking challenges'');
          base_prompt =
            base_prompt @
            ''\<newline>'' @
            ''\<newline>'' @
            ''Your approach to comprehensive explanations:\<newline>'' @
            ''- Provide thorough coverage while maintaining clarity and flow\<newline>'' @
            ''- Include practical examples, configurations, and real-world context\<newline>'' @
            ''- Explain not just what to do, but why it works and when to use it\<newline>'' @
            ''- Anticipate follow-up questions and provide comprehensive coverage\<newline>'' @
            ''- Share multiple approaches when relevant, with clear explanations of '' @
            ''trade-offs\<newline>'' @
            ''- Include verification steps and troubleshooting guidance naturally\<newline>'' @
            ''- Connect concepts to broader networking principles and best practices\<newline>'' @
            ''\<newline>'' @
            ''You respond like someone who genuinely loves networking technology and enjoys sharing '' @
            ''comprehensive knowledge in a way that's both thorough and accessible. Your explanations '' @
            ''are detailed yet conversational, comprehensive yet clear.''
      in base_prompt)\<close>

definition llama_build_detailed_prompt :: "string \<Rightarrow> string" where
  \<open>llama_build_detailed_prompt query =
     ''I'd like a comprehensive explanation of this networking topic:\<newline>'' @
     ''\<newline>'' @
     query @
     ''\<newline>'' @
     ''\<newline>'' @
     ''I'm looking for a thorough understanding that covers the important aspects - the '' @
     ''technical details, practical implementation, real-world considerations, and any nuances '' @
     ''or best practices I should know about. Feel free to include relevant commands, '' @
     ''configurations, troubleshooting approaches, or examples that would help me really grasp '' @
     ''this topic comprehensively.\<newline>'' @
     ''\<newline>'' @
     ''If there are related concepts or common misconceptions worth addressing, I'd appreciate '' @
     ''you covering those as well.''\<close>

definition llama_enhance_comprehensive_response :: "json \<Rightarrow> string \<Rightarrow> exn + string" where
  \<open>llama_enhance_comprehensive_response answer query =
     and_then (strip_value answer) (\<lambda>enhanced_answer.
     let enhanced_answer =
           (if py_in ''configure'' (py_lower query) \<or> py_in ''configuration'' (py_lower query) then
              if \<not> py_in ''verify'' (py_lower enhanced_answer)
                 \<and> \<not> py_in ''show'' (py_lower enhanced_answer)
              then enhanced_answer @
                   ''\<newline>'' @
                   ''\<newline>'' @
                   ''Just to round this out - once you've got the configuration in place, you'll want to '' @
                   ''verify it's working as expected. The key commands for this are usually 'show '' @
                   ''running-config' to see what's actually configured, 'show ip route' for routing '' @
                   ''verification, and 'show ip interface brief' for a quick interface status overview. '' @
                   ''Testing connectivity with ping is always a good final check.''
              else enhanced_answer
            else enhanced_answer);
         enhanced_answer =
           (if py_in ''troubleshoot'' (py_lower query) \<or> py_in ''problem'' (py_lower query) then
              if \<not> py_in ''approach'' (py_lower enhanced_answer)
                 \<and> \<not> py_in ''method'' (py_lower enhanced_answer)
              then enhanced_answer @
                   ''\<newline>'' @
                   ''\<newline>'' @
                   ''For troubleshooting, I find it really helps to work systematically through the network '' @
                   ''layers. Start with the physical stuff - cables, port status, hardware indicators. Then '' @
                   ''move up through data link (VLANs, switching), network layer (routing, IP connectivity), '' @
                   ''transport (port accessibility), and finally application layer testing. This methodical '' @
                   ''approach saves a lot of time and prevents you from missing obvious issues.''
              else enhanced_answer
            else enhanced_answer);
         enhanced_answer =
           (if py_in ''security'' (py_lower query) \<or> py_in ''acl'' (py_lower query) then
              if \<not> py_in ''best practice'' (py_lower enhanced_answer)
              then enhanced_answer @
                   ''\<newline>'' @
                   ''\<newline>'' @
                   ''From a security perspective, it's worth keeping in mind the principle of least '' @
                   ''privilege - only allow what's specifically needed. Named ACLs are generally better than '' @
                   ''numbered ones for management and readability. And don't forget about logging - it's '' @
                   ''incredibly valuable for monitoring and troubleshooting security issues.''
              else enhanced_answer
            else enhanced_answer)
     in Inr enhanced_answer)\<close>

subsection \<open>ask_question\<close>

text \<open>The \<open>try\<close> block of \<open>ask_question\<close> gives the enhanced answer and the instance with
  its analytics updated, or raises; the \<open>except Exception\<close> clause returns the apology
  (the f-string with \<open>self.model\<close>) and leaves the instance as it was.\<close>

definition apology :: "string \<Rightarrow> string" where
  \<open>apology model_name =
     ''I apologize, but I encountered an issue. Please ensure Ollama is running with the ''
     @ model_name @ '' model loaded.''\<close>

definition phi3_ask_question ::
  "chat_service \<Rightarrow> ollama_tutor \<Rightarrow> string \<Rightarrow> (exn + string) \<times> ollama_tutor"
where
  \<open>phi3_ask_question chat self query =
     (case
        and_then (chat (model self) (phi3_build_expert_system_prompt self)
                    (phi3_build_enhanced_prompt query)) (\<lambda>response.
        and_then (subscript_key response ''message'') (\<lambda>message.
        and_then (subscript_key message ''content'') (\<lambda>answer.
        and_then (phi3_enhance_response answer query) (\<lambda>enhanced_answer.
        Inr (enhanced_answer, phi3_update_learning_analytics self query)))))
      of
        Inr (enhanced_answer, self') \<Rightarrow> (Inr enhanced_answer, self')
      | Inl e \<Rightarrow>
          (Inr (apology (model self)), self))\<close>

definition llama_ask_question ::
  "chat_service \<Rightarrow> ollama_tutor \<Rightarrow> string \<Rightarrow> (exn + string) \<times> ollama_tutor"
where
  \<open>llama_ask_question chat self query =
     (case
        and_then (chat (model self) (llama_build_comprehensive_system_prompt self)
                    (llama_build_detailed_prompt query)) (\<lambda>response.
        and_then (subscript_key response ''message'') (\<lambda>message.
        and_then (subscript_key message ''content'') (\<lambda>answer.
        and_then (llama_enhance_comprehensive_response answer query) (\<lambda>enhanced_answer.
        Inr (enhanced_answer, llama_update_learning_analytics self query)))))
      of
        Inr (enhanced_answer, self') \<Rightarrow> (Inr enhanced_answer, self')
      | Inl e \<Rightarrow>
          (Inr (apology (model self)), self))\<close>

section \<open>The HTTP server (fastapi_server.py)\<close>

subsection \<open>Module state\<close>

text \<open>
  The module globals that the handlers read and write. \<open>gemini_tutor\<close> and
  \<open>qwen2_tutor\<close> are the imported \<open>personalized_tutor\<close> functions, or \<open>None\<close> when the
  import failed; what the model keeps of each is the state of its module. \<open>phi3_tutor\<close>
  and \<open>llama_tutor\<close> are the two instances or \<open>None\<close>. \<open>current_tutor\<close> is \<open>None\<close> or a
  reference to one of the two instances, so a call through it changes that instance.
\<close>

datatype tutor_ref = Phi3_ref | Llama_ref

record server_state =
  gemini_tutor :: "rag_module option"
  qwen2_tutor :: "rag_module option"
  phi3_tutor :: "ollama_tutor option"
  llama_tutor :: "ollama_tutor option"
  current_tutor :: "tutor_ref option"
  current_model :: string

record services =
  gemini_search :: search_service
  gemini_generate_content :: gemini_service
  qwen2_search :: search_service
  qwen2_post :: http_service
  ollama_chat :: chat_service

text \<open>The module body: \<open>current_tutor = phi3_tutor if phi3_tutor else llama_tutor\<close> and
  \<open>current_model = "phi3"\<close>.\<close>

definition initial_state ::
  "rag_module option \<Rightarrow> rag_module option \<Rightarrow> ollama_tutor option \<Rightarrow> ollama_tutor option
     \<Rightarrow> server_state"
where
  "initial_state g q p l =
     \<lparr>gemini_tutor = g, qwen2_tutor = q, phi3_tutor = p, llama_tutor = l,
      current_tutor = (if p \<noteq> None then Some Phi3_ref
                       else if l \<noteq> None then Some Llama_ref else None),
      current_model = ''phi3''\<rparr>"




text \<open>Requests (pydantic models) and responses (dicts, in insertion order). The field
  \<open>model\<close> of a chat request is \<open>request_model\<close> here; a request that leaves it out
  arrives with the default \<open>"phi3"\<close>, one that sends \<open>null\<close> with \<open>None\<close>. No handler reads
  the request's \<open>conversation_history\<close>.\<close>

record chat_request =
  message :: string
  request_conversation_history :: "json list option"
  request_model :: "string option"

type_synonym response = "(string \<times> json) list"

text \<open>Reading a field of a response, where it is a string.\<close>

definition field :: "response \<Rightarrow> string \<Rightarrow> string option" where
  "field r k = (case map_of r k of Some (JStr s) \<Rightarrow> Some s | _ \<Rightarrow> None)"

subsection \<open>switch_model\<close>


subsection \<open>chat_endpoint\<close>



definition generating_error :: "exn \<Rightarrow> response" where
  "generating_error e =
     [(''error'', JStr (''Error generating response: '' @ exn_str e)),
      (''status'', JStr ''error'')]"


subsection \<open>chat_qwen2_endpoint\<close>

definition qwen2_mode :: "string \<Rightarrow> string" where
  "qwen2_mode msg =
     (if any_keyword_in [''configure'', ''setup'', ''command'', ''cli''] (py_lower msg)
      then ''configuration''
      else if any_keyword_in [''troubleshoot'', ''problem'', ''issue'', ''error''] (py_lower msg)
      then ''troubleshooting''
      else if any_keyword_in [''what'', ''explain'', ''define''] (py_lower msg)
      then ''concepts''
      else ''practice'')"

definition chat_qwen2_endpoint ::
  "services \<Rightarrow> server_state \<Rightarrow> chat_request \<Rightarrow> response \<times> server_state"
where
  \<open>chat_qwen2_endpoint sv st request =
     (case qwen2_tutor st of
        Some m \<Rightarrow>
          (let mode = qwen2_mode (message request) in
           case qwen2_personalized_tutor (qwen2_search sv) (qwen2_post sv) m (message request)
                  mode 3 of
             Inl e \<Rightarrow> (generating_error e, st)
           | Inr (answer, m') \<Rightarrow>
               ([(''response'', JStr answer),
                 (''model_used'', JStr ''qwen2:0.5b''),
                 (''model_type'', JStr ''practice''),
                 (''mode'', JStr mode),
                 (''gpu_accelerated'', JBool True),
                 (''response_time'', JStr ''<1s''),
                 (''status'', JStr ''success'')],
                st\<lparr>qwen2_tutor := Some m'\<rparr>))
      | None \<Rightarrow>
          ([(''error'', JStr ''Qwen2 model not available. Run: ollama pull qwen2:0.5b''),
            (''status'', JStr ''error'')],
           st))\<close>

subsection \<open>Name resolution and the multiple-choice endpoints\<close>

text \<open>
  A handler that reads a name which is not local finds it among the module globals
  or the builtins, or raises \<open>NameError\<close>. \<open>module_globals\<close> lists every name that
  fastapi_server.py binds at module level (imports, assignments, classes, functions);
  the two tutor classes are bound when their import succeeded. \<open>builtins\<close> has the
  builtin names the module uses. Objects whose content no handler reads are \<open>PyOther\<close>.
\<close>

datatype pyobj = PyNone | PyStr string | PyTutor ollama_tutor | PyOther

definition tutor_obj :: "ollama_tutor option \<Rightarrow> pyobj" where
  "tutor_obj t = (case t of None \<Rightarrow> PyNone | Some x \<Rightarrow> PyTutor x)"

definition function_obj :: "'a option \<Rightarrow> pyobj" where
  "function_obj f = (case f of None \<Rightarrow> PyNone | Some x \<Rightarrow> PyOther)"

definition module_globals :: "server_state \<Rightarrow> string \<Rightarrow> pyobj option" where
  "module_globals st =
     map_of
       ([(''FastAPI'', PyOther), (''CORSMiddleware'', PyOther), (''BaseModel'', PyOther),
         (''List'', PyOther), (''Optional'', PyOther), (''os'', PyOther),
         (''gemini_tutor'', function_obj (gemini_tutor st)),
         (''qwen2_tutor'', function_obj (qwen2_tutor st)),
         (''phi3_tutor'', tutor_obj (phi3_tutor st)),
         (''llama_tutor'', tutor_obj (llama_tutor st)),
         (''current_tutor'',
            (case current_tutor st of
               None \<Rightarrow> PyNone
             | Some Phi3_ref \<Rightarrow> tutor_obj (phi3_tutor st)
             | Some Llama_ref \<Rightarrow> tutor_obj (llama_tutor st))),
         (''current_model'', PyStr (current_model st))]
        @ (if phi3_tutor st \<noteq> None then [(''Phi3CCNATutor'', PyOther)] else [])
        @ (if llama_tutor st \<noteq> None then [(''LlamaCCNATutor'', PyOther)] else [])
        @ [(''app'', PyOther), (''ChatRequest'', PyOther), (''ModelSwitchRequest'', PyOther),
           (''Query'', PyOther), (''root'', PyOther), (''switch_model'', PyOther),
           (''chat_endpoint'', PyOther), (''chat_phi3_endpoint'', PyOther),
           (''chat_llama_endpoint'', PyOther), (''chat_gemini_endpoint'', PyOther),
           (''ask_tutor'', PyOther), (''MCAnswerRequest'', PyOther),
           (''get_random_question'', PyOther), (''check_answer'', PyOther),
           (''get_topics'', PyOther), (''get_available_models'', PyOther),
           (''health_check'', PyOther), (''chat_qwen2_endpoint'', PyOther)])"

definition builtins :: "string \<Rightarrow> pyobj option" where
  "builtins =
     map_of [(''print'', PyOther), (''set'', PyOther), (''sorted'', PyOther), (''list'', PyOther),
             (''len'', PyOther), (''str'', PyOther), (''any'', PyOther),
             (''Exception'', PyOther), (''ImportError'', PyOther)]"

definition load_name :: "(string \<Rightarrow> pyobj option) \<Rightarrow> string \<Rightarrow> exn + pyobj" where
  "load_name globals name =
     (case globals name of
        Some v \<Rightarrow> Inr v
      | None \<Rightarrow>
          (case builtins name of
             Some v \<Rightarrow> Inr v
           | None \<Rightarrow>
               Inl (Exn NameError (''name '' @ [CHR 0x27] @ name @ [CHR 0x27]
                                   @ '' is not defined''))))"

fun truthy :: "pyobj \<Rightarrow> bool" where
  "truthy PyNone = False"
| "truthy (PyStr s) = (s \<noteq> [])"
| "truthy (PyTutor t) = True"
| "truthy PyOther = True"

text \<open>\<open>obj.dataset\<close> and \<open>obj.generate_explanation(...)\<close>. Only the tutor instances have
  a \<open>dataset\<close>, and no class of the repository defines \<open>generate_explanation\<close>.\<close>

fun get_dataset :: "pyobj \<Rightarrow> exn + (string \<times> string) list list" where
  "get_dataset (PyTutor t) = Inr (dataset t)"
| "get_dataset v = Inl (Exn AttributeError ''object has no attribute 'dataset' '')"

definition generate_explanation ::
  "pyobj \<Rightarrow> (string \<times> json) list \<Rightarrow> string \<Rightarrow> exn + string"
where
  "generate_explanation obj question_data user_answer =
     Inl (Exn AttributeError ''object has no attribute generate_explanation'')"

text \<open>\<open>random.choice(xs)\<close>, with the random draw as an argument.\<close>

definition random_choice :: "nat \<Rightarrow> 'a list \<Rightarrow> exn + 'a" where
  "random_choice draw xs =
     (if xs = [] then Inl (Exn IndexError ''Cannot choose from an empty sequence'')
      else Inr (xs ! (draw mod length xs)))"

text \<open>\<open>str.upper()\<close> on characters below 256. The capital of \<open>0xDF\<close> is \<open>SS\<close>; the
  capitals of \<open>0xB5\<close> and \<open>0xFF\<close> lie above 255 and these two are left as they are.\<close>

definition py_upper_char :: "char \<Rightarrow> string" where
  "py_upper_char c =
     (let n = (of_char c :: nat)
      in if (97 \<le> n \<and> n \<le> 122) \<or> (224 \<le> n \<and> n \<le> 254 \<and> n \<noteq> 247)
         then [char_of (n - 32)]
         else if n = 223 then ''SS'' else [c])"

definition py_upper :: "string \<Rightarrow> string" where
  "py_upper s = concat (map py_upper_char s)"

fun upper_value :: "json \<Rightarrow> exn + string" where
  "upper_value (JStr s) = Inr (py_upper s)"
| "upper_value v = Inl (no_attribute v ''upper'')"

definition question_json :: "(string \<times> string) list \<Rightarrow> json" where
  "question_json q = JObj (map (\<lambda>(k, v). (k, JStr v)) q)"

text \<open>The \<open>except Exception as e\<close> clause shared by the three handlers.\<close>

definition error_response :: "exn \<Rightarrow> response" where
  "error_response e = [(''error'', JStr (''Error: '' @ exn_str e)), (''status'', JStr ''error'')]"

definition or_error_response :: "exn + response \<Rightarrow> response" where
  "or_error_response body = (case body of Inl e \<Rightarrow> error_response e | Inr r \<Rightarrow> r)"

definition get_random_question :: "(string \<Rightarrow> pyobj option) \<Rightarrow> nat \<Rightarrow> response" where
  "get_random_question globals draw =
     or_error_response
       (and_then (load_name globals ''ccna_tutor'') (\<lambda>ccna_tutor.
        if truthy ccna_tutor then
          and_then (get_dataset ccna_tutor) (\<lambda>ds.
          and_then (random_choice draw ds) (\<lambda>question.
          Inr [(''question'', question_json question), (''status'', JStr ''success'')]))
        else
          Inr [(''error'', JStr ''CCNA tutor not available''), (''status'', JStr ''error'')]))"

record mc_answer_request =
  question_id :: "int option"
  user_answer :: string
  question_data :: "(string \<times> json) list option"

definition check_answer :: "(string \<Rightarrow> pyobj option) \<Rightarrow> mc_answer_request \<Rightarrow> response" where
  "check_answer globals request =
     or_error_response
       (and_then (load_name globals ''ccna_tutor'') (\<lambda>ccna_tutor.
        case (if truthy ccna_tutor then question_data request else None) of
          Some (kv # kvs) \<Rightarrow>
            and_then (get_value (JObj (kv # kvs)) ''correct_answer'' (JStr [])) (\<lambda>v.
            and_then (upper_value v) (\<lambda>correct_answer.
            let answer = py_upper (user_answer request);
                is_correct = (answer = correct_answer)
            in and_then (generate_explanation ccna_tutor (kv # kvs) (user_answer request))
                 (\<lambda>explanation.
                    Inr [(''correct'', JBool is_correct),
                         (''correct_answer'', JStr correct_answer),
                         (''explanation'', JStr explanation),
                         (''status'', JStr ''success'')])))
        | _ \<Rightarrow>
            Inr [(''error'', JStr ''Invalid request or CCNA tutor not available''),
                 (''status'', JStr ''error'')]))"

text \<open>The loop of \<open>get_topics\<close> collects \<open>q['topic']\<close> of every record that has the key;
  \<open>sorted(list(topics))\<close> of the set is the sorted list without duplicates.\<close>

definition get_topics :: "(string \<Rightarrow> pyobj option) \<Rightarrow> response" where
  "get_topics globals =
     or_error_response
       (and_then (load_name globals ''ccna_tutor'') (\<lambda>ccna_tutor.
        if truthy ccna_tutor then
          and_then (get_dataset ccna_tutor) (\<lambda>ds.
          let topics = List.map_filter (\<lambda>q. map_of q ''topic'') ds
          in Inr [(''topics'', JArr (map JStr (sort (remdups topics)))),
                  (''status'', JStr ''success'')])
        else
          Inr [(''error'', JStr ''CCNA tutor not available''), (''status'', JStr ''error'')]))"

section \<open>The similarity index\<close>

text \<open>
  The scripts build the index with \<open>faiss.IndexFlatL2(dim)\<close> and
  \<open>index.add(embeddings)\<close> and query it with \<open>index.search(query_vec, top_k)\<close>. The
  library is not among the sources, so the index is modelled from the contract of
  section 4.1 of the specification. Coordinates are real numbers here. \<open>encode\<close>, the
  sentence encoder, is a parameter wherever it is needed.
\<close>

type_synonym embedding = "real list"

text \<open>Modelled from the spec: the distance metric of the index, which the library
  computes. "Distance metric: squared Euclidean (L2)."\<close>

definition l2_squared :: "embedding \<Rightarrow> embedding \<Rightarrow> real" where
  "l2_squared x y = (\<Sum>(a, b) \<leftarrow> zip x y. (a - b)\<^sup>2)"

text \<open>Modelled from the spec: \<open>build\<close> of the index, which the library does.
  "\<open>build(vectors: sequence of EmbeddingVector) -> Index\<close>"; "Must fail fast if
  \<open>vectors\<close> is empty".\<close>

definition index_build :: "embedding list \<Rightarrow> exn + embedding list" where
  "index_build vectors =
     (if vectors = [] then Inl (Exn ValueError ''empty corpus'') else Inr vectors)"

text \<open>Modelled from the spec: \<open>search\<close> of the index, which the library does.
  "\<open>search(query_vector, k) -> ordered sequence of (index_position, distance)\<close>, ordered
  by ascending distance (nearest first)"; "No tie-break rule specified beyond index
  order for equal distances"; "\<open>k\<close> may exceed corpus size; result is then truncated to
  corpus size". The sort is stable, so equal distances stay in index order.\<close>

definition index_search :: "embedding list \<Rightarrow> embedding \<Rightarrow> nat \<Rightarrow> (nat \<times> real) list" where
  "index_search vectors query_vector k =
     take k (sort_key snd (map (\<lambda>i. (i, l2_squared (vectors ! i) query_vector))
                             [0 ..< length vectors]))"

section \<open>Properties\<close>

subsection \<open>Conversation memory window\<close>

lemma py_slice_from_neg:
  "0 < k \<Longrightarrow> py_slice_from (- int k) xs = drop (length xs - k) xs"
proof -
  assume "0 < k"
  moreover have "nat (max (int (length xs) - int k) 0) = length xs - k"
    by simp
  ultimately show ?thesis
    by (simp add: py_slice_from_def Let_def)
qed

lemma py_slice_from_neg_length:
  "0 < k \<Longrightarrow> length (py_slice_from (- int k) xs) = min k (length xs)"
  by (simp add: py_slice_from_neg)

lemma py_slice_from_neg_suffix:
  "0 < k \<Longrightarrow> suffix (py_slice_from (- int k) xs) xs"
  by (simp add: py_slice_from_neg suffix_drop)

lemma py_slice_from_neg_idem:
  "0 < k \<Longrightarrow>
   py_slice_from (- int k) (py_slice_from (- int k) xs) = py_slice_from (- int k) xs"
  by (simp add: py_slice_from_neg)

text \<open>
  C5. Whatever the length of the conversation history, the part of it that prompt
  construction reads is the window of the most recent entries, in their original order
  (most recent last): at most 5 entries for Gemini and at most 2 for Qwen2, and the
  history text is built from that window alone.
\<close>

theorem memory_window_bounded:
  "length (gemini_window h) = min 5 (length h)
   \<and> length (qwen2_window h) = min 2 (length h)
   \<and> length (gemini_window h) \<le> 5
   \<and> length (qwen2_window h) \<le> 2
   \<and> suffix (gemini_window h) h
   \<and> suffix (qwen2_window h) h
   \<and> gemini_history_text h = gemini_history_text (gemini_window h)
   \<and> qwen2_history_text h = qwen2_history_text (qwen2_window h)"
proof -
  have g: "gemini_window h = py_slice_from (- int 5) h"
    and q: "qwen2_window h = py_slice_from (- int 2) h"
    by (simp_all add: gemini_window_def qwen2_window_def)
  have gi: "gemini_window (gemini_window h) = gemini_window h"
    using py_slice_from_neg_idem [of 5 h] by (simp add: gemini_window_def)
  have qi: "qwen2_window (qwen2_window h) = qwen2_window h"
    using py_slice_from_neg_idem [of 2 h] by (simp add: qwen2_window_def)
  have gl: "length (gemini_window h) = min 5 (length h)"
    unfolding g by (rule py_slice_from_neg_length) simp
  have ql: "length (qwen2_window h) = min 2 (length h)"
    unfolding q by (rule py_slice_from_neg_length) simp
  have gs: "suffix (gemini_window h) h"
    unfolding g by (rule py_slice_from_neg_suffix) simp
  have qs: "suffix (qwen2_window h) h"
    unfolding q by (rule py_slice_from_neg_suffix) simp
  have gne: "(gemini_window h = []) = (h = [])"
    using gl by (cases h) auto
  have qne: "(qwen2_window h = []) = (h = [])"
    using ql by (cases h) auto
  have gt: "gemini_history_text h = gemini_history_text (gemini_window h)"
    by (simp add: gemini_history_text_def gi gne)
  have qt: "qwen2_history_text h = qwen2_history_text (qwen2_window h)"
    by (simp add: qwen2_history_text_def qi qne)
  from gl ql gs qs gt qt show ?thesis by simp
qed

subsection \<open>Retrieved context\<close>

text \<open>Labels inside the corpus give one pair each, in the order of the row; the label
  \<open>-1\<close> gives the pair of the last corpus entry.\<close>

lemma context_pairs_in_range:
  "length cs = length qs \<Longrightarrow> \<forall>i \<in> set labels. 0 \<le> i \<and> i < int (length qs) \<Longrightarrow>
     context_pairs qs cs labels = Inr (map (\<lambda>i. qa_text (qs ! nat i) (cs ! nat i)) labels)"
  by (induction labels) (simp_all add: py_getitem_def)

lemma context_pairs_padding:
  "length cs = length qs \<Longrightarrow> qs \<noteq> [] \<Longrightarrow>
     context_pairs qs cs [- 1] = Inr [qa_text (last qs) (last cs)]"
  by (cases qs rule: rev_cases; cases cs rule: rev_cases) (simp_all add: py_getitem_def nth_append)

text \<open>
  C1. When the requested number of neighbours exceeds the corpus size, the context
  is to hold one Q/A pair per valid corpus position that the search returned, and no
  pair from a padding position such as \<open>-1\<close>. With a corpus of one entry and
  \<open>top_k = 3\<close> the row of labels is \<open>[0, -1, -1]\<close>: it has one valid position, yet the
  context that the code builds has three pairs, because \<open>-1 < len(questions)\<close> passes
  the filter and \<open>questions[-1]\<close> is the last entry.
\<close>

theorem padding_labels_repeat_last_entry:
  "build_context [''What is OSPF?''] [''A link-state protocol''] [0, - 1, - 1]
     = Inr (''Q: What is OSPF?\<newline>A: A link-state protocol\<newline>'' @
            ''Q: What is OSPF?\<newline>A: A link-state protocol\<newline>'' @
            ''Q: What is OSPF?\<newline>A: A link-state protocol'')
   \<and> filter (\<lambda>i. 0 \<le> i \<and> i < int (length [''What is OSPF?''])) [0, - 1, - 1] = [0]"
  by (simp add: build_context_def py_getitem_def qa_text_def)

subsection \<open>Prompt assembly\<close>

lemma filter_length_sublist:
  "sublist xs ys \<Longrightarrow> length (filter P xs) \<le> length (filter P ys)"
  by (auto simp: sublist_def)

lemma gemini_role_template_length: "length gemini_role_template = 787"
  by (simp add: gemini_role_template_def)

lemma qwen2_instruction_length: "length qwen2_instruction = 260"
  by (simp add: qwen2_instruction_def)

text \<open>
  C2, as stated: the full retrieved context string is passed into the prompt of each
  backend. It fails for Qwen2 at a context of 401 characters: the prompt does not
  contain it.
\<close>

theorem qwen2_prompt_caps_context:
  "\<not> sublist (replicate 401 (CHR ''#''))
        (qwen2_prompt (replicate 401 (CHR ''#'')) ''What is OSPF?'')"
proof
  assume "sublist (replicate 401 (CHR ''#''))
            (qwen2_prompt (replicate 401 (CHR ''#'')) ''What is OSPF?'')"
  from filter_length_sublist [OF this, of "\<lambda>c. c = CHR ''#''"]
  show False
    by (simp add: qwen2_prompt_def qwen2_instruction_def py_slice_to_def)
qed

text \<open>
  C2, amended. The Gemini prompt contains the full retrieved context and grows with
  its whole length; the Qwen2 prompt contains the first 400 characters of the
  retrieved context, which is all of it when the context has at most 400 characters.
\<close>

theorem prompt_context_passthrough:
  "sublist ctx (gemini_prompt ctx history_text query)
   \<and> length (gemini_prompt ctx history_text query)
       = 879 + length ctx + length history_text + length query
   \<and> sublist (take 400 ctx) (qwen2_prompt ctx query)
   \<and> length (qwen2_prompt ctx query) = 298 + min 400 (length ctx) + length query
   \<and> (length ctx \<le> 400 \<longrightarrow> sublist ctx (qwen2_prompt ctx query))"
proof -
  have g: "sublist ctx (gemini_prompt ctx history_text query)"
    unfolding gemini_prompt_def by (rule sublist_appendI)
  have gl: "length (gemini_prompt ctx history_text query)
              = 879 + length ctx + length history_text + length query"
    by (simp add: gemini_prompt_def gemini_role_template_length)
  have q: "sublist (take 400 ctx) (qwen2_prompt ctx query)"
  proof -
    have "qwen2_prompt ctx query
            = (qwen2_instruction @ ''\<newline>\<newline>'' @ ''Context: '') @ take 400 ctx
              @ (''\<newline>\<newline>'' @ ''Question: '' @ query @ ''\<newline>\<newline>''
                 @ ''Quick answer:'')"
      by (simp add: qwen2_prompt_def py_slice_to_def)
    then show ?thesis
      by (simp only: sublist_appendI)
  qed
  have ql: "length (qwen2_prompt ctx query) = 298 + min 400 (length ctx) + length query"
    by (simp add: qwen2_prompt_def qwen2_instruction_length py_slice_to_def)
  have qs: "length ctx \<le> 400 \<longrightarrow> sublist ctx (qwen2_prompt ctx query)"
    using q by auto
  from g gl q ql qs show ?thesis by blast
qed

theorem prompt_context_passthrough_witness:
  "length ''Q: What is OSPF?'' \<le> 400
   \<and> sublist ''Q: What is OSPF?'' (qwen2_prompt ''Q: What is OSPF?'' ''Explain OSPF'')"
  using prompt_context_passthrough [of "''Q: What is OSPF?''" "[]" "''Explain OSPF''"]
  by simp

text \<open>
  C7. With the retrieved context, the memory text and the role template fixed, two
  distinct query texts give distinct prompts, for the Gemini and the Qwen2 assembler.
\<close>

theorem prompt_injective_in_query:
  "q1 \<noteq> q2 \<Longrightarrow>
     gemini_prompt ctx history_text q1 \<noteq> gemini_prompt ctx history_text q2
     \<and> qwen2_prompt ctx q1 \<noteq> qwen2_prompt ctx q2"
  by (simp add: gemini_prompt_def qwen2_prompt_def)

theorem prompt_injective_in_query_witness:
  "''Explain OSPF'' \<noteq> ''Explain RIP''
   \<and> gemini_prompt ''Q: a'' [] ''Explain OSPF'' \<noteq> gemini_prompt ''Q: a'' [] ''Explain RIP''
   \<and> qwen2_prompt ''Q: a'' ''Explain OSPF'' \<noteq> qwen2_prompt ''Q: a'' ''Explain RIP''"
proof -
  have h: "''Explain OSPF'' \<noteq> ''Explain RIP''" by simp
  from prompt_injective_in_query [OF h] h show ?thesis by blast
qed

text \<open>
  C9. The \<open>mode\<close> argument of the Qwen2 \<open>personalized_tutor\<close> has no influence: for any
  two values of it, with the same query, module state, \<open>top_k\<close> and services, the
  assembled prompt is the same, and so are the returned response and the updated memory.
\<close>

theorem qwen2_mode_has_no_influence:
  "qwen2_tutor_prompt search m query mode1 top_k = qwen2_tutor_prompt search m query mode2 top_k
   \<and> qwen2_personalized_tutor search post m query mode1 top_k
       = qwen2_personalized_tutor search post m query mode2 top_k"
  by (simp add: qwen2_tutor_prompt_def qwen2_personalized_tutor_def)

subsection \<open>Generation backends\<close>

lemma qwen2_handler_text: "\<exists>s. qwen2_handler e = Inr (''[Error] '' @ s)"
  by (simp add: qwen2_handler_def)

text \<open>
  C4. For every prompt and every outcome of the underlying service, each backend's
  generate operation returns a string and raises nothing: Gemini's and Qwen2's
  \<open>generate_answer\<close> and the \<open>ask_question\<close> of the Phi3 and the Llama tutor. When the
  service fails, the string is the backend's error text: for Gemini the bracketed
  prefix with \<open>str(e)\<close>, whether the call or the \<open>text\<close> property raised; for Qwen2 the
  connection text, the time-out text, the text with \<open>str(e)\<close> for any other exception
  (also one raised by \<open>json()\<close> or by a body that is not as expected) and the status
  text for a status other than 200; for Phi3 and Llama the apology with the model name,
  whether the chat call raised, the response lacks the message content or the content
  is not a string.
\<close>

theorem backend_failures_become_text:
  "(\<exists>s. gemini_generate_answer generate_content prompt = Inr s)
   \<and> (\<exists>s. qwen2_generate_answer post prompt = Inr s)
   \<and> (\<exists>s. fst (phi3_ask_question chat self query) = Inr s)
   \<and> (\<exists>s. fst (llama_ask_question chat self query) = Inr s)
   \<and> (generate_content prompt = Inl e \<longrightarrow>
        gemini_generate_answer generate_content prompt
          = Inr (''[Error from Gemini API] '' @ exn_str e))
   \<and> (post prompt = Inl e \<longrightarrow>
        qwen2_generate_answer post prompt = qwen2_handler e
        \<and> (\<exists>s. qwen2_handler e = Inr (''[Error] '' @ s)))
   \<and> (post prompt = Inr r \<and> status_code r \<noteq> 200 \<longrightarrow>
        qwen2_generate_answer post prompt
          = Inr (''[Error] Ollama returned status '' @ py_str_int (status_code r)
                 @ ''. Is Ollama running?''))
   \<and> (chat (model self) (phi3_build_expert_system_prompt self) (phi3_build_enhanced_prompt query)
          = Inl e \<longrightarrow>
        phi3_ask_question chat self query = (Inr (apology (model self)), self))
   \<and> (chat (model self) (llama_build_comprehensive_system_prompt self)
          (llama_build_detailed_prompt query) = Inl e \<longrightarrow>
        llama_ask_question chat self query = (Inr (apology (model self)), self))
   \<and> apology (model self)
        = ''I apologize, but I encountered an issue. Please ensure Ollama is running with the ''
          @ model self @ '' model loaded.''
   \<and> (chat (model self) (phi3_build_expert_system_prompt self) (phi3_build_enhanced_prompt query)
          = Inr response
        \<and> and_then (subscript_key response ''message'')
              (\<lambda>message. subscript_key message ''content'') = Inl e \<longrightarrow>
        phi3_ask_question chat self query = (Inr (apology (model self)), self))
   \<and> (chat (model self) (llama_build_comprehensive_system_prompt self)
          (llama_build_detailed_prompt query) = Inr response
        \<and> and_then (subscript_key response ''message'')
              (\<lambda>message. subscript_key message ''content'') = Inl e \<longrightarrow>
        llama_ask_question chat self query = (Inr (apology (model self)), self))
   \<and> (chat (model self) (phi3_build_expert_system_prompt self) (phi3_build_enhanced_prompt query)
          = Inr response
        \<and> and_then (subscript_key response ''message'')
              (\<lambda>message. subscript_key message ''content'') = Inr answer
        \<and> phi3_enhance_response answer query = Inl e \<longrightarrow>
        phi3_ask_question chat self query = (Inr (apology (model self)), self))
   \<and> (chat (model self) (llama_build_comprehensive_system_prompt self)
          (llama_build_detailed_prompt query) = Inr response
        \<and> and_then (subscript_key response ''message'')
              (\<lambda>message. subscript_key message ''content'') = Inr answer
        \<and> llama_enhance_comprehensive_response answer query = Inl e \<longrightarrow>
        llama_ask_question chat self query = (Inr (apology (model self)), self))
   \<and> (generate_content prompt = Inr (Inl e) \<longrightarrow>
        gemini_generate_answer generate_content prompt
          = Inr (''[Error from Gemini API] '' @ exn_str e))
   \<and> (post prompt = Inl e \<and> (exn_cls e = ConnectionError \<or> exn_cls e = ConnectTimeout) \<longrightarrow>
        qwen2_generate_answer post prompt
          = Inr ''[Error] Cannot connect to Ollama. Please start Ollama service.'')
   \<and> (post prompt = Inl e \<and> (exn_cls e = Timeout \<or> exn_cls e = ReadTimeout) \<longrightarrow>
        qwen2_generate_answer post prompt = Inr ''[Error] Request timed out. Try again.'')
   \<and> (post prompt = Inl e
        \<and> exn_cls e \<notin> {ConnectionError, ConnectTimeout, Timeout, ReadTimeout} \<longrightarrow>
        qwen2_generate_answer post prompt = Inr (''[Error] '' @ exn_str e))
   \<and> (post prompt = Inr r \<and> status_code r = 200 \<and> json_body r = Inl e \<longrightarrow>
        qwen2_generate_answer post prompt = qwen2_handler e)
   \<and> (post prompt = Inr r \<and> status_code r = 200 \<and> json_body r = Inr body
        \<and> and_then (get_value body ''response'' (JStr [])) strip_value = Inl e \<longrightarrow>
        qwen2_generate_answer post prompt = qwen2_handler e)"
proof -
  have a: "\<exists>s. gemini_generate_answer generate_content prompt = Inr s"
    by (auto simp: gemini_generate_answer_def try_except_def and_then_def split: sum.splits)
  have b: "\<exists>s. qwen2_generate_answer post prompt = Inr s"
    by (auto simp: qwen2_generate_answer_def qwen2_handler_def try_except_def and_then_def
             split: sum.splits)
  have c: "\<exists>s. fst (phi3_ask_question chat self query) = Inr s"
    by (auto simp: phi3_ask_question_def split: sum.splits prod.splits)
  have d: "\<exists>s. fst (llama_ask_question chat self query) = Inr s"
    by (auto simp: llama_ask_question_def split: sum.splits prod.splits)
  have e1: "generate_content prompt = Inl e \<longrightarrow>
        gemini_generate_answer generate_content prompt
          = Inr (''[Error from Gemini API] '' @ exn_str e)"
    by (simp add: gemini_generate_answer_def try_except_def and_then_def)
  have e2: "post prompt = Inl e \<longrightarrow>
        qwen2_generate_answer post prompt = qwen2_handler e
        \<and> (\<exists>s. qwen2_handler e = Inr (''[Error] '' @ s))"
    using qwen2_handler_text [of e]
    by (simp add: qwen2_generate_answer_def try_except_def and_then_def)
  have e3: "post prompt = Inr r \<and> status_code r \<noteq> 200 \<longrightarrow>
        qwen2_generate_answer post prompt
          = Inr (''[Error] Ollama returned status '' @ py_str_int (status_code r)
                 @ ''. Is Ollama running?'')"
    by (simp add: qwen2_generate_answer_def try_except_def and_then_def)
  have p1: "chat (model self) (phi3_build_expert_system_prompt self) (phi3_build_enhanced_prompt query)
          = Inl e \<longrightarrow>
        phi3_ask_question chat self query = (Inr (apology (model self)), self)"
    by (simp add: phi3_ask_question_def and_then_def)
  have l1: "chat (model self) (llama_build_comprehensive_system_prompt self)
          (llama_build_detailed_prompt query) = Inl e \<longrightarrow>
        llama_ask_question chat self query = (Inr (apology (model self)), self)"
    by (simp add: llama_ask_question_def and_then_def)
  have ap: "apology (model self)
        = ''I apologize, but I encountered an issue. Please ensure Ollama is running with the ''
          @ model self @ '' model loaded.''"
    by (simp add: apology_def)
  have p2: "chat (model self) (phi3_build_expert_system_prompt self) (phi3_build_enhanced_prompt query)
          = Inr response
        \<and> and_then (subscript_key response ''message'')
              (\<lambda>message. subscript_key message ''content'') = Inl e \<longrightarrow>
        phi3_ask_question chat self query = (Inr (apology (model self)), self)"
    by (auto simp: phi3_ask_question_def and_then_def split: sum.splits)
  have l2: "chat (model self) (llama_build_comprehensive_system_prompt self)
          (llama_build_detailed_prompt query) = Inr response
        \<and> and_then (subscript_key response ''message'')
              (\<lambda>message. subscript_key message ''content'') = Inl e \<longrightarrow>
        llama_ask_question chat self query = (Inr (apology (model self)), self)"
    by (auto simp: llama_ask_question_def and_then_def split: sum.splits)
  have p3: "chat (model self) (phi3_build_expert_system_prompt self) (phi3_build_enhanced_prompt query)
          = Inr response
        \<and> and_then (subscript_key response ''message'')
              (\<lambda>message. subscript_key message ''content'') = Inr answer
        \<and> phi3_enhance_response answer query = Inl e \<longrightarrow>
        phi3_ask_question chat self query = (Inr (apology (model self)), self)"
    by (auto simp: phi3_ask_question_def and_then_def split: sum.splits)
  have l3: "chat (model self) (llama_build_comprehensive_system_prompt self)
          (llama_build_detailed_prompt query) = Inr response
        \<and> and_then (subscript_key response ''message'')
              (\<lambda>message. subscript_key message ''content'') = Inr answer
        \<and> llama_enhance_comprehensive_response answer query = Inl e \<longrightarrow>
        llama_ask_question chat self query = (Inr (apology (model self)), self)"
    by (auto simp: llama_ask_question_def and_then_def split: sum.splits)
  have g2: "generate_content prompt = Inr (Inl e) \<longrightarrow>
        gemini_generate_answer generate_content prompt
          = Inr (''[Error from Gemini API] '' @ exn_str e)"
    by (simp add: gemini_generate_answer_def try_except_def and_then_def)
  have q1: "post prompt = Inl e \<and> (exn_cls e = ConnectionError \<or> exn_cls e = ConnectTimeout) \<longrightarrow>
        qwen2_generate_answer post prompt
          = Inr ''[Error] Cannot connect to Ollama. Please start Ollama service.''"
    by (auto simp: qwen2_generate_answer_def qwen2_handler_def try_except_def and_then_def)
  have q2: "post prompt = Inl e \<and> (exn_cls e = Timeout \<or> exn_cls e = ReadTimeout) \<longrightarrow>
        qwen2_generate_answer post prompt = Inr ''[Error] Request timed out. Try again.''"
    by (auto simp: qwen2_generate_answer_def qwen2_handler_def try_except_def and_then_def)
  have q3: "post prompt = Inl e
        \<and> exn_cls e \<notin> {ConnectionError, ConnectTimeout, Timeout, ReadTimeout} \<longrightarrow>
        qwen2_generate_answer post prompt = Inr (''[Error] '' @ exn_str e)"
    by (auto simp: qwen2_generate_answer_def qwen2_handler_def try_except_def and_then_def)
  have q5: "post prompt = Inr r \<and> status_code r = 200 \<and> json_body r = Inl e \<longrightarrow>
        qwen2_generate_answer post prompt = qwen2_handler e"
    by (simp add: qwen2_generate_answer_def try_except_def and_then_def)
  have q6: "post prompt = Inr r \<and> status_code r = 200 \<and> json_body r = Inr body
        \<and> and_then (get_value body ''response'' (JStr [])) strip_value = Inl e \<longrightarrow>
        qwen2_generate_answer post prompt = qwen2_handler e"
    by (simp add: qwen2_generate_answer_def try_except_def and_then_def)
  show ?thesis
    apply (intro conjI)
    using a b c d e1 e2 e3 p1 l1 ap p2 l2 p3 l3 g2 q1 q2 q3 q5 q6 by blast+
qed

theorem backend_failures_become_text_witness:
  "gemini_generate_answer (\<lambda>p. Inl (Exn ConnectionError ''connection refused'')) ''Explain OSPF''
     = Inr ''[Error from Gemini API] connection refused''
   \<and> gemini_generate_answer (\<lambda>p. Inr (Inl (Exn ValueError ''blocked''))) ''Explain OSPF''
     = Inr ''[Error from Gemini API] blocked''
   \<and> qwen2_generate_answer (\<lambda>p. Inl (Exn ConnectionError ''connection refused'')) ''Explain OSPF''
     = Inr ''[Error] Cannot connect to Ollama. Please start Ollama service.''
   \<and> qwen2_generate_answer (\<lambda>p. Inl (Exn ReadTimeout ''read timed out'')) ''Explain OSPF''
     = Inr ''[Error] Request timed out. Try again.''
   \<and> qwen2_generate_answer (\<lambda>p. Inl (Exn OtherException ''boom'')) ''Explain OSPF''
     = Inr ''[Error] boom''
   \<and> qwen2_generate_answer (\<lambda>p. Inr \<lparr>status_code = 500, json_body = Inr JNull\<rparr>) ''Explain OSPF''
     = Inr ''[Error] Ollama returned status 500. Is Ollama running?''
   \<and> qwen2_generate_answer
         (\<lambda>p. Inr \<lparr>status_code = 200, json_body = Inl (Exn ValueError ''bad json'')\<rparr>)
         ''Explain OSPF''
     = Inr ''[Error] bad json''
   \<and> phi3_ask_question (\<lambda>m s u. Inl (Exn ConnectionError ''connection refused''))
        \<lparr>model = ''phi3:mini'', dataset = [], experience_level = ''beginner'',
           self_conversation_history = [], topic_performance = []\<rparr> ''Explain OSPF''
     = (Inr (''I apologize, but I encountered an issue. Please ensure Ollama is running ''
             @ ''with the phi3:mini model loaded.''),
        \<lparr>model = ''phi3:mini'', dataset = [], experience_level = ''beginner'',
           self_conversation_history = [], topic_performance = []\<rparr>)
   \<and> llama_ask_question (\<lambda>m s u. Inl (Exn ConnectionError ''connection refused''))
        \<lparr>model = ''llama3.1:8b'', dataset = [], experience_level = ''intermediate'',
           self_conversation_history = [], topic_performance = []\<rparr> ''Explain OSPF''
     = (Inr (''I apologize, but I encountered an issue. Please ensure Ollama is running ''
             @ ''with the llama3.1:8b model loaded.''),
        \<lparr>model = ''llama3.1:8b'', dataset = [], experience_level = ''intermediate'',
           self_conversation_history = [], topic_performance = []\<rparr>)
   \<and> phi3_ask_question (\<lambda>m s u. Inr (JObj []))
        \<lparr>model = ''phi3:mini'', dataset = [], experience_level = ''beginner'',
           self_conversation_history = [], topic_performance = []\<rparr> ''Explain OSPF''
     = (Inr (''I apologize, but I encountered an issue. Please ensure Ollama is running ''
             @ ''with the phi3:mini model loaded.''),
        \<lparr>model = ''phi3:mini'', dataset = [], experience_level = ''beginner'',
           self_conversation_history = [], topic_performance = []\<rparr>)
   \<and> llama_ask_question (\<lambda>m s u. Inr (JObj [(''message'', JObj [(''content'', JNull)])]))
        \<lparr>model = ''llama3.1:8b'', dataset = [], experience_level = ''intermediate'',
           self_conversation_history = [], topic_performance = []\<rparr> ''Explain OSPF''
     = (Inr (''I apologize, but I encountered an issue. Please ensure Ollama is running ''
             @ ''with the llama3.1:8b model loaded.''),
        \<lparr>model = ''llama3.1:8b'', dataset = [], experience_level = ''intermediate'',
           self_conversation_history = [], topic_performance = []\<rparr>)"
proof -
  let ?e = "Exn ConnectionError ''connection refused''"
  let ?v = "Exn ValueError ''blocked''"
  let ?to = "Exn ReadTimeout ''read timed out''"
  let ?ot = "Exn OtherException ''boom''"
  let ?bj = "Exn ValueError ''bad json''"
  let ?ke = "Exn KeyError ([CHR 0x27] @ ''message'' @ [CHR 0x27])"
  let ?ae = "no_attribute JNull ''strip''"
  let ?down = "\<lambda>p::string. (Inl ?e :: exn + (exn + string))"
  let ?blocked = "\<lambda>p::string. (Inr (Inl ?v) :: exn + (exn + string))"
  let ?refused = "\<lambda>p::string. (Inl ?e :: exn + http_response)"
  let ?slow = "\<lambda>p::string. (Inl ?to :: exn + http_response)"
  let ?boom = "\<lambda>p::string. (Inl ?ot :: exn + http_response)"
  let ?r5 = "\<lparr>status_code = 500, json_body = Inr JNull\<rparr>"
  let ?r2 = "\<lparr>status_code = 200, json_body = Inl ?bj\<rparr>"
  let ?busy = "\<lambda>p::string. (Inr ?r5 :: exn + http_response)"
  let ?garbled = "\<lambda>p::string. (Inr ?r2 :: exn + http_response)"
  let ?nochat = "\<lambda>(m::string) (s::string) (u::string). (Inl ?e :: exn + json)"
  let ?empty = "\<lambda>(m::string) (s::string) (u::string). (Inr (JObj []) :: exn + json)"
  let ?nullc = "JObj [(''message'', JObj [(''content'', JNull)])]"
  let ?nullchat = "\<lambda>(m::string) (s::string) (u::string). (Inr ?nullc :: exn + json)"
  let ?p = "\<lparr>model = ''phi3:mini'', dataset = [], experience_level = ''beginner'',
           self_conversation_history = [], topic_performance = []\<rparr>"
  let ?l = "\<lparr>model = ''llama3.1:8b'', dataset = [], experience_level = ''intermediate'',
           self_conversation_history = [], topic_performance = []\<rparr>"
  let ?q = "''Explain OSPF''"
  have s500: "py_str_int 500 = ''500''" by code_simp
  have g1: "gemini_generate_answer ?down ?q = Inr ''[Error from Gemini API] connection refused''"
    using backend_failures_become_text [of ?down ?q ?refused ?nochat ?p ?q ?e ?r5 JNull JNull JNull]
    by simp
  have g2: "gemini_generate_answer ?blocked ?q = Inr ''[Error from Gemini API] blocked''"
    using backend_failures_become_text [of ?blocked ?q ?refused ?nochat ?p ?q ?v ?r5 JNull JNull JNull]
    by simp
  have q1: "qwen2_generate_answer ?refused ?q
              = Inr ''[Error] Cannot connect to Ollama. Please start Ollama service.''"
    using backend_failures_become_text [of ?down ?q ?refused ?nochat ?p ?q ?e ?r5 JNull JNull JNull]
    by (simp add: qwen2_handler_def)
  have q2: "qwen2_generate_answer ?slow ?q = Inr ''[Error] Request timed out. Try again.''"
    using backend_failures_become_text [of ?down ?q ?slow ?nochat ?p ?q ?to ?r5 JNull JNull JNull]
    by (simp add: qwen2_handler_def)
  have q3: "qwen2_generate_answer ?boom ?q = Inr ''[Error] boom''"
    using backend_failures_become_text [of ?down ?q ?boom ?nochat ?p ?q ?ot ?r5 JNull JNull JNull]
    by (simp add: qwen2_handler_def)
  have q4: "qwen2_generate_answer ?busy ?q
              = Inr ''[Error] Ollama returned status 500. Is Ollama running?''"
    using backend_failures_become_text [of ?down ?q ?busy ?nochat ?p ?q ?e ?r5 JNull JNull JNull] s500
    by simp
  have q5: "qwen2_generate_answer ?garbled ?q = Inr ''[Error] bad json''"
    using backend_failures_become_text [of ?down ?q ?garbled ?nochat ?p ?q ?bj ?r2 JNull JNull JNull]
    by (simp add: qwen2_handler_def)
  have p1: "phi3_ask_question ?nochat ?p ?q = (Inr (''I apologize, but I encountered an issue. Please ensure Ollama is running ''
               @ ''with the phi3:mini model loaded.''),
          \<lparr>model = ''phi3:mini'', dataset = [], experience_level = ''beginner'',
             self_conversation_history = [], topic_performance = []\<rparr>)"
    using backend_failures_become_text [of ?down ?q ?refused ?nochat ?p ?q ?e ?r5 JNull JNull JNull]
    by simp
  have l1: "llama_ask_question ?nochat ?l ?q = (Inr (''I apologize, but I encountered an issue. Please ensure Ollama is running ''
               @ ''with the llama3.1:8b model loaded.''),
          \<lparr>model = ''llama3.1:8b'', dataset = [], experience_level = ''intermediate'',
             self_conversation_history = [], topic_performance = []\<rparr>)"
    using backend_failures_become_text [of ?down ?q ?refused ?nochat ?l ?q ?e ?r5 JNull JNull JNull]
    by simp
  have p2: "phi3_ask_question ?empty ?p ?q = (Inr (''I apologize, but I encountered an issue. Please ensure Ollama is running ''
               @ ''with the phi3:mini model loaded.''),
          \<lparr>model = ''phi3:mini'', dataset = [], experience_level = ''beginner'',
             self_conversation_history = [], topic_performance = []\<rparr>)"
    using backend_failures_become_text [of ?down ?q ?refused ?empty ?p ?q ?ke ?r5 "JObj []" JNull JNull]
    by (simp add: and_then_def)
  have l3: "llama_ask_question ?nullchat ?l ?q = (Inr (''I apologize, but I encountered an issue. Please ensure Ollama is running ''
               @ ''with the llama3.1:8b model loaded.''),
          \<lparr>model = ''llama3.1:8b'', dataset = [], experience_level = ''intermediate'',
             self_conversation_history = [], topic_performance = []\<rparr>)"
    using backend_failures_become_text [of ?down ?q ?refused ?nullchat ?l ?q ?ae ?r5 ?nullc JNull JNull]
    by (simp add: and_then_def llama_enhance_comprehensive_response_def)
  from g1 g2 q1 q2 q3 q4 q5 p1 l1 p2 l3 show ?thesis by blast
qed

subsection \<open>Topic classification\<close>

lemma py_in_sublist: "py_in sub s = sublist sub s"
  by (induction s) (simp_all add: sublist_Cons_right)

lemma any_keyword_in_iff:
  "any_keyword_in kws s = (\<exists>k \<in> set kws. sublist k s)"
  by (induction kws) (simp_all add: py_in_sublist)

lemma first_matching_topic_find:
  "first_matching_topic topics s =
     (case find (\<lambda>(topic, keywords). \<exists>k \<in> set keywords. sublist k s) topics of
        None \<Rightarrow> ''general''
      | Some (topic, keywords) \<Rightarrow> topic)"
  by (induction topics s rule: first_matching_topic.induct) (simp_all add: any_keyword_in_iff)

lemma first_matching_topic_general:
  "(\<forall>(topic, keywords) \<in> set topics. \<forall>k \<in> set keywords. \<not> sublist k s)
     \<Longrightarrow> first_matching_topic topics s = ''general''"
  by (induction topics s rule: first_matching_topic.induct) (auto simp: any_keyword_in_iff)

lemma first_matching_topic_tag:
  "first_matching_topic topics s \<in> set (map fst topics) \<union> {''general''}"
  by (induction topics s rule: first_matching_topic.induct) auto

text \<open>
  C6. Topic classification gives one tag for every text, in both tutors: the tag of
  the first topic, in the order of the table, one of whose keywords is a substring of
  the lower-cased text, and \<open>general\<close> when no keyword of any topic occurs in it. Texts
  that differ only in letter case get the same tag, and the tag is a topic of the
  table or \<open>general\<close>.
\<close>

theorem topic_classification:
  "phi3_extract_topic q =
     (case find (\<lambda>(topic, keywords). \<exists>k \<in> set keywords. sublist k (py_lower q)) phi3_topics of
        None \<Rightarrow> ''general''
      | Some (topic, keywords) \<Rightarrow> topic)
   \<and> llama_extract_topic q =
     (case find (\<lambda>(topic, keywords). \<exists>k \<in> set keywords. sublist k (py_lower q)) llama_topics of
        None \<Rightarrow> ''general''
      | Some (topic, keywords) \<Rightarrow> topic)
   \<and> ((\<forall>(topic, keywords) \<in> set phi3_topics. \<forall>k \<in> set keywords. \<not> sublist k (py_lower q))
        \<longrightarrow> phi3_extract_topic q = ''general'')
   \<and> ((\<forall>(topic, keywords) \<in> set llama_topics. \<forall>k \<in> set keywords. \<not> sublist k (py_lower q))
        \<longrightarrow> llama_extract_topic q = ''general'')
   \<and> (py_lower q = py_lower q' \<longrightarrow>
        phi3_extract_topic q = phi3_extract_topic q'
        \<and> llama_extract_topic q = llama_extract_topic q')
   \<and> phi3_extract_topic q \<in> set (map fst phi3_topics) \<union> {''general''}
   \<and> llama_extract_topic q \<in> set (map fst llama_topics) \<union> {''general''}"
proof -
  have a: "phi3_extract_topic q =
     (case find (\<lambda>(topic, keywords). \<exists>k \<in> set keywords. sublist k (py_lower q)) phi3_topics of
        None \<Rightarrow> ''general''
      | Some (topic, keywords) \<Rightarrow> topic)"
    unfolding phi3_extract_topic_def by (rule first_matching_topic_find)
  have b: "llama_extract_topic q =
     (case find (\<lambda>(topic, keywords). \<exists>k \<in> set keywords. sublist k (py_lower q)) llama_topics of
        None \<Rightarrow> ''general''
      | Some (topic, keywords) \<Rightarrow> topic)"
    unfolding llama_extract_topic_def by (rule first_matching_topic_find)
  have c: "(\<forall>(topic, keywords) \<in> set phi3_topics. \<forall>k \<in> set keywords. \<not> sublist k (py_lower q))
        \<longrightarrow> phi3_extract_topic q = ''general''"
    unfolding phi3_extract_topic_def using first_matching_topic_general by blast
  have d: "(\<forall>(topic, keywords) \<in> set llama_topics. \<forall>k \<in> set keywords. \<not> sublist k (py_lower q))
        \<longrightarrow> llama_extract_topic q = ''general''"
    unfolding llama_extract_topic_def using first_matching_topic_general by blast
  have e: "py_lower q = py_lower q' \<longrightarrow>
        phi3_extract_topic q = phi3_extract_topic q'
        \<and> llama_extract_topic q = llama_extract_topic q'"
    by (simp add: phi3_extract_topic_def llama_extract_topic_def)
  have f: "phi3_extract_topic q \<in> set (map fst phi3_topics) \<union> {''general''}"
    unfolding phi3_extract_topic_def by (rule first_matching_topic_tag)
  have g: "llama_extract_topic q \<in> set (map fst llama_topics) \<union> {''general''}"
    unfolding llama_extract_topic_def by (rule first_matching_topic_tag)
  from a b c d e f g show ?thesis by blast
qed

theorem topic_classification_witness:
  "py_lower ''Explain OSPF'' = py_lower ''explain ospf''
   \<and> phi3_extract_topic ''Explain OSPF'' = phi3_extract_topic ''explain ospf''
   \<and> llama_extract_topic ''Explain OSPF'' = llama_extract_topic ''explain ospf''
   \<and> list_all (\<lambda>(topic, keywords). list_all (\<lambda>k. \<not> sublist k (py_lower ''Hello'')) keywords)
        phi3_topics
   \<and> list_all (\<lambda>(topic, keywords). list_all (\<lambda>k. \<not> sublist k (py_lower ''Hello'')) keywords)
        llama_topics
   \<and> phi3_extract_topic ''Hello'' = ''general''
   \<and> llama_extract_topic ''Hello'' = ''general''"
proof -
  have h1: "py_lower ''Explain OSPF'' = py_lower ''explain ospf''"
    by code_simp
  have h2: "list_all (\<lambda>(topic, keywords). list_all (\<lambda>k. \<not> sublist k (py_lower ''Hello'')) keywords)
              phi3_topics"
    by code_simp
  have h3: "list_all (\<lambda>(topic, keywords). list_all (\<lambda>k. \<not> sublist k (py_lower ''Hello'')) keywords)
              llama_topics"
    by code_simp
  have b2: "\<forall>(topic, keywords) \<in> set phi3_topics. \<forall>k \<in> set keywords.
              \<not> sublist k (py_lower ''Hello'')"
    using h2 by (simp add: list_all_iff case_prod_unfold)
  have b3: "\<forall>(topic, keywords) \<in> set llama_topics. \<forall>k \<in> set keywords.
              \<not> sublist k (py_lower ''Hello'')"
    using h3 by (simp add: list_all_iff case_prod_unfold)
  from topic_classification [of "''Explain OSPF''" "''explain ospf''"] h1
  have w1: "phi3_extract_topic ''Explain OSPF'' = phi3_extract_topic ''explain ospf''
            \<and> llama_extract_topic ''Explain OSPF'' = llama_extract_topic ''explain ospf''"
    by blast
  from topic_classification [of "''Hello''" "''Hello''"] b2 b3
  have w2: "phi3_extract_topic ''Hello'' = ''general'' \<and> llama_extract_topic ''Hello'' = ''general''"
    by blast
  from h1 h2 h3 w1 w2 show ?thesis by blast
qed

subsection \<open>Multiple-choice endpoints\<close>

lemma module_globals_ccna_tutor: "module_globals st ''ccna_tutor'' = None"
  by (simp add: module_globals_def)

lemma load_name_ccna_tutor:
  "load_name (module_globals st) ''ccna_tutor''
     = Inl (Exn NameError (''name '' @ [CHR 0x27] @ ''ccna_tutor'' @ [CHR 0x27]
                           @ '' is not defined''))"
  by (simp add: load_name_def module_globals_ccna_tutor builtins_def)

text \<open>
  C10. The handlers of \<open>/random-question\<close>, \<open>/check-answer\<close> and \<open>/topics\<close> never return
  a success result. In every state of the server, for every request and every random
  draw, each of them reads the name \<open>ccna_tutor\<close>, which the module never binds; the
  \<open>NameError\<close> is caught by the handler's \<open>except\<close> clause and the response is the
  error dict with status \<open>error\<close>.
\<close>

theorem multiple_choice_endpoints_fail:
  "get_random_question (module_globals st) draw
     = [(''error'', JStr (''Error: name '' @ [CHR 0x27] @ ''ccna_tutor'' @ [CHR 0x27]
                          @ '' is not defined'')),
        (''status'', JStr ''error'')]
   \<and> check_answer (module_globals st) request
     = [(''error'', JStr (''Error: name '' @ [CHR 0x27] @ ''ccna_tutor'' @ [CHR 0x27]
                          @ '' is not defined'')),
        (''status'', JStr ''error'')]
   \<and> get_topics (module_globals st)
     = [(''error'', JStr (''Error: name '' @ [CHR 0x27] @ ''ccna_tutor'' @ [CHR 0x27]
                          @ '' is not defined'')),
        (''status'', JStr ''error'')]
   \<and> field (get_random_question (module_globals st) draw) ''status'' = Some ''error''
   \<and> field (check_answer (module_globals st) request) ''status'' = Some ''error''
   \<and> field (get_topics (module_globals st)) ''status'' = Some ''error''"
  by (simp add: get_random_question_def check_answer_def get_topics_def load_name_ccna_tutor
        and_then_def or_error_response_def error_response_def field_def)

subsection \<open>Switching backends\<close>





























subsection \<open>Similarity search\<close>

lemma index_search_members:
  "(i, d) \<in> set (index_search vectors v k)
     \<Longrightarrow> i < length vectors \<and> d = l2_squared (vectors ! i) v"
proof -
  assume "(i, d) \<in> set (index_search vectors v k)"
  then have "(i, d) \<in> set (map (\<lambda>i. (i, l2_squared (vectors ! i) v)) [0 ..< length vectors])"
    unfolding index_search_def using set_take_subset by fastforce
  then show ?thesis by auto
qed

text \<open>
  C3. For every corpus, every query \<open>q\<close> and every \<open>k\<close>, \<open>search(encode(q), k)\<close> returns at
  most \<open>k\<close> pairs of a position and a distance (\<open>k\<close> of them, or the whole corpus when it
  is smaller), in non-decreasing order of distance, nearest first; each pair is a
  corpus position with the squared Euclidean distance of its vector to the query
  vector, and no position occurs twice.
\<close>

theorem search_at_most_k_sorted:
  "length (index_search vectors (encode q) k) \<le> k
   \<and> length (index_search vectors (encode q) k) = min k (length vectors)
   \<and> sorted (map snd (index_search vectors (encode q) k))
   \<and> list_all (\<lambda>(i, d). i < length vectors \<and> d = l2_squared (vectors ! i) (encode q))
        (index_search vectors (encode q) k)
   \<and> distinct (map fst (index_search vectors (encode q) k))"
proof -
  let ?all = "sort_key snd (map (\<lambda>i. (i, l2_squared (vectors ! i) (encode q)))
                              [0 ..< length vectors])"
  have r: "index_search vectors (encode q) k = take k ?all"
    by (simp add: index_search_def)
  have l: "length (index_search vectors (encode q) k) = min k (length vectors)"
    unfolding r by (simp add: min.commute)
  have "sorted (map snd ?all)"
    by (rule sorted_sort_key)
  then have s: "sorted (map snd (index_search vectors (encode q) k))"
    unfolding r take_map [symmetric] by (rule sorted_wrt_take)
  have m: "list_all (\<lambda>(i, d). i < length vectors \<and> d = l2_squared (vectors ! i) (encode q))
        (index_search vectors (encode q) k)"
    unfolding list_all_iff using index_search_members by fastforce
  have "distinct ?all"
    by (simp add: distinct_map inj_on_def)
  moreover have "inj_on fst (set ?all)"
    by (auto simp: inj_on_def)
  ultimately have "distinct (map fst ?all)"
    by (simp only: distinct_map simp_thms)
  then have d: "distinct (map fst (index_search vectors (encode q) k))"
    unfolding r take_map [symmetric] by (rule distinct_take)
  from l s m d show ?thesis by simp
qed

end
